theory Spec2Isabelle
  imports Main "HOL-Library.Sublist" "HOL-Library.AList"
begin

section \<open>The watch-mode part of staging/webpack.config.js\<close>

text \<open>
  The file embeds the four pieces of \<^verbatim>\<open>webpack.config.js\<close> that carry behaviour:
  the path filter \<^verbatim>\<open>ignored\<close> with its cache, \<^verbatim>\<open>maybeSync\<close> with the
  listener it registers through \<^verbatim>\<open>fs.watchFile\<close>, the class
  \<^verbatim>\<open>FilterIgnoringWatchFileSystem\<close> and the class \<^verbatim>\<open>FrontEndPlugin\<close>.

  JavaScript strings are modelled as \<^typ>\<open>string\<close>; \<^verbatim>\<open>s.length\<close> is
  \<^const>\<open>length\<close>, \<^verbatim>\<open>s.slice(n)\<close> for \<open>0 \<le> n\<close> is \<^term>\<open>drop n s\<close>.
  Module-level variables (\<^verbatim>\<open>ignoreCache\<close>, the listeners registered with
  \<^verbatim>\<open>fs.watchFile\<close>) are fields of an explicit state; a thrown exception is the
  \<^const>\<open>Inl\<close> branch of a result that still carries the state reached when it was thrown.
\<close>

subsection \<open>Errors, the file system, Node's path module\<close>

datatype error =
    ENOENT string       \<comment> \<open>no such file or directory\<close>
  | TypeError string    \<comment> \<open>a JavaScript TypeError\<close>
  | CopyError string    \<comment> \<open>a failure raised by fs-extra's copySync\<close>

text \<open>
  What is stored at a path: a regular file with its content, or a directory with its
  entries in listing order.
\<close>

datatype node = File string | Dir "(string \<times> node) list"

text \<open>
  The file system as the program observes it. \<open>nodes\<close> gives what \<^verbatim>\<open>fs.statSync\<close>
  sees at a path (symbolic links followed), \<open>realpath\<close> is \<^verbatim>\<open>fs.realpathSync\<close>
  (\<open>None\<close> where it throws). Both are arbitrary: nothing relates the entry at a path to
  the entries at the paths below it, except inside one \<^const>\<open>Dir\<close> tree.
\<close>

record filesys =
  nodes :: "string \<Rightarrow> node option"
  realpath :: "string \<Rightarrow> string option"

record stats =
  isFile :: bool
  nlink :: nat

definition statSync :: "filesys \<Rightarrow> string \<Rightarrow> error + stats" where
  "statSync fs p =
     (case nodes fs p of
        None \<Rightarrow> Inl (ENOENT p)
      | Some (File c) \<Rightarrow> Inr \<lparr>isFile = True, nlink = 1\<rparr>
      | Some (Dir es) \<Rightarrow> Inr \<lparr>isFile = False, nlink = 1\<rparr>)"

definition realpathSync :: "filesys \<Rightarrow> string \<Rightarrow> error + string" where
  "realpathSync fs p = (case realpath fs p of None \<Rightarrow> Inl (ENOENT p) | Some q \<Rightarrow> Inr q)"

definition existsSync :: "filesys \<Rightarrow> string \<Rightarrow> bool" where
  "existsSync fs p = (nodes fs p \<noteq> None)"

text \<open>
  Node's \<^verbatim>\<open>path\<close> module (\<^verbatim>\<open>plib\<close> in the source) is a parameter:
  \<^verbatim>\<open>plib.resolve\<close>, \<^verbatim>\<open>plib.join\<close> and \<^verbatim>\<open>plib.sep\<close>.
\<close>

record pathlib =
  resolve :: "string \<Rightarrow> string"
  join :: "string \<Rightarrow> string \<Rightarrow> string"
  sep :: string

text \<open>
  The configuration read at start-up: \<open>watched\<close> is the object \<^verbatim>\<open>watched\<close>
  (package name to local package directory) in the order of \<^verbatim>\<open>Object.keys\<close>,
  \<open>watchedPackages\<close> is \<^verbatim>\<open>jlab.watchedPackages\<close> (package name to linked
  source directory).
\<close>

record config =
  plib :: pathlib
  watched :: "(string \<times> string) list"
  watchedPackages :: "(string \<times> string) list"

subsection \<open>\<^verbatim>\<open>String.prototype.indexOf\<close>\<close>

fun indexOf_from :: "nat \<Rightarrow> string \<Rightarrow> string \<Rightarrow> int" where
  "indexOf_from i [] pat = (if pat = [] then int i else - 1)"
| "indexOf_from i (c # cs) pat =
     (if prefix pat (c # cs) then int i else indexOf_from (Suc i) cs pat)"

definition indexOf :: "string \<Rightarrow> string \<Rightarrow> int" where
  "indexOf s pat = indexOf_from 0 s pat"

subsection \<open>Module state and \<^verbatim>\<open>maybeSync\<close>\<close>

text \<open>
  One call of \<^verbatim>\<open>fs.watchFile(source, { interval: 500 }, listener)\<close>: the listener
  closes over \<open>source\<close> and \<open>localPath\<close>.
\<close>

record mirror =
  source :: string
  localPath :: string
  interval :: nat

record state =
  ignoreCache :: "string \<Rightarrow> bool option"
  listeners :: "mirror list"

type_synonym 'a result = "(error + 'a) \<times> state"

definition maybeSync :: "config \<Rightarrow> filesys \<Rightarrow> string \<Rightarrow> string \<Rightarrow> string \<Rightarrow> state \<Rightarrow> unit result" where
  "maybeSync cfg fs lp name rest st =
     (case statSync fs lp of
        Inl e \<Rightarrow> (Inl e, st)
      | Inr stats \<Rightarrow>
          if \<not> isFile stats then (Inr (), st)
          else
            (case map_of (watchedPackages cfg) name of
               None \<Rightarrow> (Inl (TypeError ''path must be a string''), st)
             | Some dir \<Rightarrow>
                 (case realpathSync fs (join (plib cfg) dir rest) of
                    Inl e \<Rightarrow> (Inl e, st)
                  | Inr src \<Rightarrow>
                      (case realpathSync fs lp of
                         Inl e \<Rightarrow> (Inl e, st)
                       | Inr rlp \<Rightarrow>
                           if src = rlp then (Inr (), st)
                           else (Inr (),
                                 st\<lparr>listeners := listeners st @
                                   [\<lparr>source = src, localPath = lp, interval = 500\<rparr>]\<rparr>)))))"

subsection \<open>\<^verbatim>\<open>ignored\<close>\<close>

text \<open>
  The callback of \<^verbatim>\<open>Object.keys(watched).some(...)\<close>, run over the remaining roots.
  The value is the variable \<^verbatim>\<open>ignore\<close> when \<^verbatim>\<open>some\<close> ends; \<open>path\<close> is already
  resolved.
\<close>

fun scan :: "config \<Rightarrow> filesys \<Rightarrow> string \<Rightarrow> (string \<times> string) list \<Rightarrow> state \<Rightarrow> bool result" where
  "scan cfg fs path [] st = (Inr True, st)"
| "scan cfg fs path ((name, rootPath) # ws) st =
     (let contained = (indexOf path (rootPath @ sep (plib cfg)) \<noteq> - 1) in
      if path \<noteq> rootPath \<and> \<not> contained then scan cfg fs path ws st
      else
        let rest = drop (length rootPath) path in
        if indexOf rest ''node_modules'' = - 1 then
          (case maybeSync cfg fs path name rest st of
             (Inl e, st') \<Rightarrow> (Inl e, st')
           | (Inr u, st') \<Rightarrow> (Inr False, st'))
        else (Inr True, st))"

definition ignored :: "config \<Rightarrow> filesys \<Rightarrow> string \<Rightarrow> state \<Rightarrow> bool result" where
  "ignored cfg fs p st =
     (let path = resolve (plib cfg) p in
      case ignoreCache st path of
        Some b \<Rightarrow> (Inr b, st)
      | None \<Rightarrow>
          (case scan cfg fs path (watched cfg) st of
             (Inl e, st') \<Rightarrow> (Inl e, st')
           | (Inr ignore, st') \<Rightarrow>
               (Inr ignore, st'\<lparr>ignoreCache := (ignoreCache st')(path \<mapsto> ignore)\<rparr>)))"

text \<open>The state when the module has just been loaded.\<close>

definition init :: state where
  "init = \<lparr>ignoreCache = Map.empty, listeners = []\<rparr>"


subsection \<open>Copying and removing with fs-extra\<close>

text \<open>
  \<^verbatim>\<open>fs.copySync\<close> and \<^verbatim>\<open>fs.removeSync\<close> belong to the library fs-extra. They
  are modelled on the trees stored at the two paths, which are taken not to lie inside one
  another: a file replaces a file, a directory is merged into a directory entry by entry,
  a file and a directory never replace one another, and what the destination holds beside
  the copied entries stays. A copy that fails is taken to leave the disk as it was.
\<close>

fun copy_node :: "node \<Rightarrow> node option \<Rightarrow> error + node"
  and copy_children :: "(string \<times> node) list \<Rightarrow> (string \<times> node) list \<Rightarrow> error + node" where
  "copy_node (File c) None = Inr (File c)"
| "copy_node (File c) (Some (File d)) = Inr (File c)"
| "copy_node (File c) (Some (Dir ds)) =
     Inl (CopyError ''Cannot overwrite directory with non-directory'')"
| "copy_node (Dir es) None = copy_children es []"
| "copy_node (Dir es) (Some (File d)) =
     Inl (CopyError ''Cannot overwrite non-directory with directory'')"
| "copy_node (Dir es) (Some (Dir ds)) = copy_children es ds"
| "copy_children [] ds = Inr (Dir ds)"
| "copy_children ((n, x) # es) ds =
     (case copy_node x (map_of ds n) of
        Inl e \<Rightarrow> Inl e
      | Inr y \<Rightarrow> copy_children es (AList.update n y ds))"

definition copySync :: "filesys \<Rightarrow> string \<Rightarrow> string \<Rightarrow> error + filesys" where
  "copySync fs src dest =
     (case nodes fs src of
        None \<Rightarrow> Inl (ENOENT src)
      | Some n \<Rightarrow>
          if src = dest then Inl (CopyError ''Source and destination must not be the same'')
          else
            (case copy_node n (nodes fs dest) of
               Inl e \<Rightarrow> Inl e
             | Inr r \<Rightarrow> Inr (fs\<lparr>nodes := (nodes fs)(dest \<mapsto> r)\<rparr>)))"

definition removeSync :: "filesys \<Rightarrow> string \<Rightarrow> filesys" where
  "removeSync fs p = fs\<lparr>nodes := (nodes fs)(p := None)\<rparr>"

text \<open>
  Reading a tree: the entry reached by a relative path, the entry with a given name in
  what a path holds, and the entry reached in what a path holds.
\<close>

fun lookup :: "node \<Rightarrow> string list \<Rightarrow> node option" where
  "lookup n [] = Some n"
| "lookup (File c) (s # ss) = None"
| "lookup (Dir es) (s # ss) = (case map_of es s of None \<Rightarrow> None | Some m \<Rightarrow> lookup m ss)"

definition child :: "node option \<Rightarrow> string \<Rightarrow> node option" where
  "child dst s = (case dst of Some (Dir ds) \<Rightarrow> map_of ds s | _ \<Rightarrow> None)"

definition reach :: "node option \<Rightarrow> string list \<Rightarrow> node option" where
  "reach dst p = (case dst of None \<Rightarrow> None | Some d \<Rightarrow> lookup d p)"

text \<open>The names in a directory are distinct, at every level.\<close>

fun wf_node :: "node \<Rightarrow> bool" where
  "wf_node (File c) = True"
| "wf_node (Dir es) = (distinct (map fst es) \<and> list_all (\<lambda>e. wf_node (snd e)) es)"

subsection \<open>The listener registered by \<^verbatim>\<open>maybeSync\<close>\<close>




subsection \<open>\<^verbatim>\<open>FrontEndPlugin\<close>\<close>

text \<open>
  \<open>staticDir\<close> is \<open>None\<close> when \<^verbatim>\<open>jlab.staticDir\<close> is undefined; the empty string is
  falsy as well. \<open>first\<close> is the field \<^verbatim>\<open>_first\<close>.
\<close>

record FrontEndPlugin =
  buildDir :: string
  staticDir :: "string option"
  first :: bool

definition new_FrontEndPlugin :: "string \<Rightarrow> string option \<Rightarrow> FrontEndPlugin" where
  "new_FrontEndPlugin b s = \<lparr>buildDir = b, staticDir = s, first = True\<rparr>"

text \<open>The function tapped on \<^verbatim>\<open>compiler.hooks.afterEmit\<close>.\<close>

definition afterEmit :: "FrontEndPlugin \<Rightarrow> filesys \<Rightarrow> (error + unit) \<times> FrontEndPlugin \<times> filesys" where
  "afterEmit this fs =
     (case staticDir this of
        None \<Rightarrow> (Inr (), this, fs)
      | Some sd \<Rightarrow>
          if sd = [] then (Inr (), this, fs)
          else
            (let fs1 = (if first this \<and> existsSync fs sd then removeSync fs sd else fs);
                 this1 = this\<lparr>first := False\<rparr>
             in case copySync fs1 (buildDir this) sd of
                  Inl e \<Rightarrow> (Inl e, this1, fs1)
                | Inr fs2 \<Rightarrow> (Inr (), this1, fs2)))"

subsection \<open>\<^verbatim>\<open>FilterIgnoringWatchFileSystem\<close>\<close>

text \<open>
  JavaScript values, as far as the watch protocol needs them; an object is a reference.
  The heap holds the \<^verbatim>\<open>Map\<close> objects that carry timestamps, from path to value.
\<close>

datatype jsval = JUndefined | JNull | JBool bool | JNum int | JStr string | JRef nat

fun truthy :: "jsval \<Rightarrow> bool" where
  "truthy JUndefined = False"
| "truthy JNull = False"
| "truthy (JBool b) = b"
| "truthy (JNum n) = (n \<noteq> 0)"
| "truthy (JStr s) = (s \<noteq> [])"
| "truthy (JRef a) = True"

type_synonym heap = "nat \<Rightarrow> (string \<Rightarrow> jsval option) option"

text \<open>\<^verbatim>\<open>m.set(k, v)\<close>; a value that is not a \<^verbatim>\<open>Map\<close> has no such method.\<close>

definition map_set :: "jsval \<Rightarrow> string \<Rightarrow> jsval \<Rightarrow> heap \<Rightarrow> error + heap" where
  "map_set m k v h =
     (case m of
        JRef a \<Rightarrow>
          (case h a of
             None \<Rightarrow> Inl (TypeError ''set is not a function'')
           | Some mp \<Rightarrow> Inr (h(a \<mapsto> mp(k \<mapsto> v))))
      | _ \<Rightarrow> Inl (TypeError ''set is not a function''))"


text \<open>The loop \<^verbatim>\<open>for (const path of paths) { m.set(path, 1); }\<close>.\<close>

fun overlay :: "string list \<Rightarrow> jsval \<Rightarrow> heap \<Rightarrow> (error + unit) \<times> heap" where
  "overlay [] m h = (Inr (), h)"
| "overlay (p # ps) m h =
     (case map_set m p (JNum 1) h of
        Inl e \<Rightarrow> (Inl e, h)
      | Inr h' \<Rightarrow> overlay ps m h')"



text \<open>
  What \<^verbatim>\<open>watch\<close> computes before it calls the wrapped file system: the two lists its
  closures keep and the two lists it passes on. The arguments \<^verbatim>\<open>missing\<close>,
  \<^verbatim>\<open>startTime\<close>, \<^verbatim>\<open>options\<close> and \<^verbatim>\<open>callbackUndelayed\<close> are passed on as they are.
\<close>

record partition =
  ignoredFiles :: "string list"
  ignoredDirs :: "string list"
  watchedFiles :: "string list"
  watchedDirs :: "string list"


text \<open>The arguments of the completion callback, in their order.\<close>

record cbargs =
  err :: jsval
  filesModified :: jsval
  dirsModified :: jsval
  missingModified :: jsval
  fileTimestamps :: jsval
  dirTimestamps :: jsval
  removedFiles :: jsval

text \<open>
  The arrow function that \<^verbatim>\<open>watch\<close> passes to the wrapped file system. \<open>Inr args\<close>
  says that the consumer's \<^verbatim>\<open>callback\<close> is called with exactly the arguments \<open>args\<close>;
  \<open>Inl\<close> is an exception thrown before that.
\<close>

definition on_change :: "partition \<Rightarrow> cbargs \<Rightarrow> heap \<Rightarrow> (error + jsval list) \<times> heap" where
  "on_change part args h =
     (if truthy (err args) then (Inr [err args], h)
      else
        (case overlay (ignoredFiles part) (fileTimestamps args) h of
           (Inl e, h1) \<Rightarrow> (Inl e, h1)
         | (Inr u, h1) \<Rightarrow>
             (case overlay (ignoredDirs part) (dirTimestamps args) h1 of
                (Inl e, h2) \<Rightarrow> (Inl e, h2)
              | (Inr u, h2) \<Rightarrow>
                  (Inr [err args, filesModified args, dirsModified args, missingModified args,
                        fileTimestamps args, dirTimestamps args, removedFiles args], h2))))"




subsection \<open>The specification's reading of the exclusion marker\<close>

text \<open>
  The specification speaks of a path segment equal to the marker. These two definitions
  follow its words, to be compared with the test \<^verbatim>\<open>rest.indexOf('node_modules')\<close>
  of the source: the segments of a string are the pieces between occurrences of the
  separator character.
\<close>

fun spec_segments :: "char \<Rightarrow> string \<Rightarrow> string list" where
  "spec_segments c [] = [[]]"
| "spec_segments c (x # xs) =
     (if x = c then [] # spec_segments c xs
      else (case spec_segments c xs of [] \<Rightarrow> [[x]] | s # ss \<Rightarrow> (x # s) # ss))"

definition spec_has_marker_segment :: "string \<Rightarrow> bool" where
  "spec_has_marker_segment rest = (''node_modules'' \<in> set (spec_segments CHR ''/'' rest))"

subsection \<open>A concrete installation\<close>

text \<open>
  One package \<open>A\<close>, installed at \<^verbatim>\<open>/src/A\<close> and linked from \<^verbatim>\<open>/linked/A\<close>.
  On absolute, normalised POSIX paths \<^verbatim>\<open>plib.resolve\<close> is the identity and
  \<^verbatim>\<open>plib.join(dir, rest)\<close>, for \<open>rest\<close> starting with the separator, is
  concatenation. \<^verbatim>\<open>/src/A/link.js\<close> is a symbolic link to the linked file.
\<close>

definition example_plib :: pathlib where
  "example_plib = \<lparr>resolve = (\<lambda>p. p), join = (\<lambda>d r. d @ r), sep = ''/''\<rparr>"

definition example_config :: config where
  "example_config = \<lparr>plib = example_plib, watched = [(''A'', ''/src/A'')],
     watchedPackages = [(''A'', ''/linked/A'')]\<rparr>"

definition example_fs :: filesys where
  "example_fs = \<lparr>nodes = map_of
       [(''/src/A/lib/x.js'', File ''old''),
        (''/linked/A/lib/x.js'', File ''new''),
        (''/src/A/lib'', Dir [(''x.js'', File ''old'')]),
        (''/src/A/link.js'', File ''same''),
        (''/linked/A/link.js'', File ''same''),
        (''/src/A/node_modules_x.js'', File ''text''),
        (''/x/src/A/lib'', Dir [])],
     realpath = map_of
       [(''/src/A/lib/x.js'', ''/src/A/lib/x.js''),
        (''/linked/A/lib/x.js'', ''/linked/A/lib/x.js''),
        (''/src/A/lib'', ''/src/A/lib''),
        (''/src/A/link.js'', ''/linked/A/link.js''),
        (''/linked/A/link.js'', ''/linked/A/link.js''),
        (''/src/A/node_modules_x.js'', ''/src/A/node_modules_x.js''),
        (''/x/src/A/lib'', ''/x/src/A/lib'')]\<rparr>"



text \<open>
  Publishing: the build output holds \<^verbatim>\<open>a.js\<close>. Before the first emission the
  destination holds \<^verbatim>\<open>old.txt\<close>; before the second it holds \<^verbatim>\<open>a.js\<close> and a file
  \<^verbatim>\<open>b.txt\<close> added by hand.
\<close>

definition example_publish_fs :: filesys where
  "example_publish_fs = \<lparr>nodes = map_of
       [(''/build'', Dir [(''a.js'', File ''bundle'')]),
        (''/static'', Dir [(''old.txt'', File ''stale'')])],
     realpath = Map.empty\<rparr>"

definition example_publish_fs2 :: filesys where
  "example_publish_fs2 = \<lparr>nodes = map_of
       [(''/build'', Dir [(''a.js'', File ''bundle'')]),
        (''/static'', Dir [(''a.js'', File ''bundle''), (''b.txt'', File ''extra'')])],
     realpath = Map.empty\<rparr>"




definition example_partition :: partition where
  "example_partition = \<lparr>ignoredFiles = [''/other/z.js''], ignoredDirs = [''/other''],
     watchedFiles = [''/src/A/lib/x.js''], watchedDirs = [''/src/A/lib'']\<rparr>"

definition example_heap :: heap where
  "example_heap = [4 \<mapsto> [''/src/A/lib/x.js'' \<mapsto> JNum 1700], 5 \<mapsto> [''/src/A/lib'' \<mapsto> JNum 1600]]"

definition example_args :: cbargs where
  "example_args = \<lparr>err = JNull, filesModified = JRef 1, dirsModified = JRef 2,
     missingModified = JRef 3, fileTimestamps = JRef 4, dirTimestamps = JRef 5,
     removedFiles = JRef 6\<rparr>"


section \<open>Properties\<close>

subsection \<open>Auxiliary facts\<close>

lemmas ex_defs = example_plib_def example_config_def example_fs_def init_def
  ignored_def indexOf_def maybeSync_def statSync_def realpathSync_def Let_def

lemma indexOf_from_sublist: "indexOf_from i s pat \<noteq> - 1 \<longleftrightarrow> sublist pat s"
proof (induction s arbitrary: i)
  case Nil
  then show ?case by simp
next
  case (Cons c cs)
  then show ?case by (simp add: sublist_Cons_right)
qed

lemma indexOf_sublist: "indexOf s pat = - 1 \<longleftrightarrow> \<not> sublist pat s"
  using indexOf_from_sublist[of 0 s pat] by (auto simp: indexOf_def)

text \<open>The test the callback of \<^verbatim>\<open>some\<close> makes on one root.\<close>

lemma scan_skip:
  "\<forall>w \<in> set pre. path \<noteq> snd w \<and> \<not> sublist (snd w @ sep (plib cfg)) path \<Longrightarrow>
   scan cfg fs path (pre @ ws) st = scan cfg fs path ws st"
  by (induction pre) (auto simp: indexOf_sublist Let_def)

lemma scan_first_match:
  assumes "\<forall>w \<in> set pre. path \<noteq> snd w \<and> \<not> sublist (snd w @ sep (plib cfg)) path"
    and "path = rootPath \<or> sublist (rootPath @ sep (plib cfg)) path"
  shows "scan cfg fs path (pre @ (name, rootPath) # post) st =
     (if sublist ''node_modules'' (drop (length rootPath) path) then (Inr True, st)
      else (case maybeSync cfg fs path name (drop (length rootPath) path) st of
             (Inl e, st') \<Rightarrow> (Inl e, st')
           | (Inr u, st') \<Rightarrow> (Inr False, st')))"
  using assms(2) by (auto simp add: scan_skip[OF assms(1)] Let_def indexOf_sublist)

lemma maybeSync_throw_state: "maybeSync cfg fs lp name rest st = (Inl e, st') \<Longrightarrow> st' = st"
  by (auto simp: maybeSync_def split: sum.splits if_splits option.splits)












text \<open>What a successful copy leaves at the destination.\<close>

lemma copy_children_char:
  "copy_children es ds = Inr r \<Longrightarrow> distinct (map fst es) \<Longrightarrow>
   \<exists>rs. r = Dir rs \<and>
     (\<forall>s. map_of rs s =
        (case map_of es s of
           None \<Rightarrow> map_of ds s
         | Some x \<Rightarrow> (case copy_node x (map_of ds s) of Inl e \<Rightarrow> None | Inr y \<Rightarrow> Some y))) \<and>
     (\<forall>s x. map_of es s = Some x \<longrightarrow> (\<exists>y. copy_node x (map_of ds s) = Inr y))"
proof (induction es arbitrary: ds)
  case Nil
  then show ?case by auto
next
  case (Cons a es)
  obtain n x where a: "a = (n, x)" by (cases a)
  from Cons.prems(1) obtain y where y: "copy_node x (map_of ds n) = Inr y"
    and rest: "copy_children es (AList.update n y ds) = Inr r"
    unfolding a by (auto split: sum.splits)
  from Cons.prems(2) have d: "distinct (map fst es)" and nn: "n \<notin> fst ` set es"
    unfolding a by auto
  from Cons.IH[OF rest d] obtain rs where r: "r = Dir rs"
    and m: "\<forall>s. map_of rs s =
        (case map_of es s of
           None \<Rightarrow> map_of (AList.update n y ds) s
         | Some x \<Rightarrow> (case copy_node x (map_of (AList.update n y ds) s) of Inl e \<Rightarrow> None | Inr y \<Rightarrow> Some y))"
    and ex: "\<forall>s x. map_of es s = Some x \<longrightarrow> (\<exists>y'. copy_node x (map_of (AList.update n y ds) s) = Inr y')"
    by blast
  have none: "map_of es n = None" using nn by (simp add: map_of_eq_None_iff)
  have other: "\<And>s. s \<noteq> n \<Longrightarrow> map_of (AList.update n y ds) s = map_of ds s"
    by (simp add: update_conv')
  have "\<forall>s. map_of rs s =
        (case map_of (a # es) s of
           None \<Rightarrow> map_of ds s
         | Some x \<Rightarrow> (case copy_node x (map_of ds s) of Inl e \<Rightarrow> None | Inr y \<Rightarrow> Some y))"
  proof
    fix s
    show "map_of rs s =
        (case map_of (a # es) s of
           None \<Rightarrow> map_of ds s
         | Some x \<Rightarrow> (case copy_node x (map_of ds s) of Inl e \<Rightarrow> None | Inr y \<Rightarrow> Some y))"
    proof (cases "s = n")
      case True
      then show ?thesis using m[rule_format, of n] none y by (simp add: a update_conv' split: option.splits)
    next
      case False
      then show ?thesis using m[rule_format, of s] other[of s] by (simp add: a split: option.splits)
    qed
  qed
  moreover have "\<forall>s x'. map_of (a # es) s = Some x' \<longrightarrow> (\<exists>y. copy_node x' (map_of ds s) = Inr y)"
  proof (intro allI impI)
    fix s x'
    assume h: "map_of (a # es) s = Some x'"
    show "\<exists>y. copy_node x' (map_of ds s) = Inr y"
    proof (cases "s = n")
      case True
      then show ?thesis using h y by (simp add: a)
    next
      case False
      then show ?thesis using h ex[rule_format, of s x'] other[of s] by (simp add: a)
    qed
  qed
  ultimately show ?case using r by blast
qed

lemma child_simps [simp]:
  "child None s = None" "child (Some (File c)) s = None" "child (Some (Dir ds)) s = map_of ds s"
  by (simp_all add: child_def)

lemma copy_dir_children:
  "copy_node (Dir es) dst = Inr r \<Longrightarrow> \<exists>ds. copy_children es ds = Inr r \<and> map_of ds = child dst"
proof (cases dst)
  case None
  assume "copy_node (Dir es) dst = Inr r"
  with None have "copy_children es [] = Inr r \<and> map_of [] = child dst" by auto
  then show ?thesis by blast
next
  case (Some d)
  assume h: "copy_node (Dir es) dst = Inr r"
  show ?thesis
  proof (cases d)
    case (File c)
    with Some h show ?thesis by simp
  next
    case (Dir ds)
    with Some h have "copy_children es ds = Inr r \<and> map_of ds = child dst" by auto
    then show ?thesis by blast
  qed
qed

lemma copy_dir_char:
  assumes "copy_node (Dir es) dst = Inr r" and "distinct (map fst es)"
  shows "\<exists>rs. r = Dir rs \<and>
     (\<forall>s. map_of rs s =
        (case map_of es s of
           None \<Rightarrow> child dst s
         | Some x \<Rightarrow> (case copy_node x (child dst s) of Inl e \<Rightarrow> None | Inr y \<Rightarrow> Some y))) \<and>
     (\<forall>s x. map_of es s = Some x \<longrightarrow> (\<exists>y. copy_node x (child dst s) = Inr y))"
proof -
  from copy_dir_children[OF assms(1)] obtain ds
    where c: "copy_children es ds = Inr r" and m: "map_of ds = child dst" by blast
  from copy_children_char[OF c assms(2)] show ?thesis unfolding m .
qed

lemma reach_Cons: "reach dst (s # ss) = reach (child dst s) ss"
  by (auto simp: reach_def child_def split: option.splits node.splits)

lemma reach_Some [simp]: "reach (Some d) p = lookup d p"
  by (simp add: reach_def)

lemma wf_child: "wf_node (Dir es) \<Longrightarrow> map_of es s = Some x \<Longrightarrow> wf_node x"
  by (auto simp: list_all_iff dest: map_of_SomeD)

lemma copy_node_file:
  "copy_node src dst = Inr r \<Longrightarrow> wf_node src \<Longrightarrow> lookup src p = Some (File c) \<Longrightarrow>
   lookup r p = Some (File c)"
proof (induction p arbitrary: src dst r)
  case Nil
  then have "src = File c" by simp
  with Nil.prems(1) show ?case by (cases dst; cases "the dst") auto
next
  case (Cons s ss)
  from Cons.prems(3) obtain es x where src: "src = Dir es" and x: "map_of es s = Some x"
    and lx: "lookup x ss = Some (File c)"
    by (cases src) (auto split: option.splits)
  from Cons.prems(2) src have d: "distinct (map fst es)" by simp
  from Cons.prems(2) src x have wx: "wf_node x" by (auto intro: wf_child)
  from copy_dir_char[OF Cons.prems(1)[unfolded src] d]
  obtain rs where r: "r = Dir rs"
    and rs: "\<forall>s. map_of rs s =
        (case map_of es s of
           None \<Rightarrow> child dst s
         | Some x \<Rightarrow> (case copy_node x (child dst s) of Inl e \<Rightarrow> None | Inr y \<Rightarrow> Some y))"
    and ex: "\<forall>s x. map_of es s = Some x \<longrightarrow> (\<exists>y. copy_node x (child dst s) = Inr y)"
    by blast
  from ex x obtain y where y: "copy_node x (child dst s) = Inr y" by blast
  with rs[rule_format, of s] x have m: "map_of rs s = Some y" by simp
  from Cons.IH[OF y wx lx] show ?case by (simp add: r m)
qed

lemma copy_node_absent:
  "copy_node src dst = Inr r \<Longrightarrow> wf_node src \<Longrightarrow> lookup src p = None \<Longrightarrow>
   lookup r p = reach dst p"
proof (induction p arbitrary: src dst r)
  case Nil
  then show ?case by simp
next
  case (Cons s ss)
  show ?case
  proof (cases src)
    case (File c)
    with Cons.prems(1) show ?thesis
      by (cases dst; cases "the dst") (auto simp: reach_def)
  next
    case (Dir es)
    from Cons.prems(2) Dir have d: "distinct (map fst es)" by simp
    from copy_dir_char[OF Cons.prems(1)[unfolded Dir] d]
    obtain rs where r: "r = Dir rs"
      and rs: "\<forall>s. map_of rs s =
        (case map_of es s of
           None \<Rightarrow> child dst s
         | Some x \<Rightarrow> (case copy_node x (child dst s) of Inl e \<Rightarrow> None | Inr y \<Rightarrow> Some y))"
      and ex: "\<forall>s x. map_of es s = Some x \<longrightarrow> (\<exists>y. copy_node x (child dst s) = Inr y)"
      by blast
    show ?thesis
    proof (cases "map_of es s")
      case None
      with rs[rule_format, of s] have m: "map_of rs s = child dst s" by simp
      show ?thesis unfolding r reach_Cons[of dst s ss]
        by (simp add: m reach_def)
    next
      case (Some x)
      from Cons.prems(2) Dir Some have wx: "wf_node x" by (auto intro: wf_child)
      from ex Some obtain y where y: "copy_node x (child dst s) = Inr y" by blast
      with rs[rule_format, of s] Some have m: "map_of rs s = Some y" by simp
      from Cons.prems(3) Dir Some have lx: "lookup x ss = None" by simp
      from Cons.IH[OF y wx lx] show ?thesis unfolding r reach_Cons[of dst s ss] by (simp add: m)
    qed
  qed
qed



lemma removeSync_absent: "nodes fs p = None \<Longrightarrow> removeSync fs p = fs"
  by (simp add: removeSync_def fun_upd_idem)

lemma removeSync_nodes [simp]: "nodes (removeSync fs p) = (nodes fs)(p := None)"
  by (simp add: removeSync_def)

lemma afterEmit_later:
  assumes "staticDir this = Some sd" and "sd \<noteq> []" and "\<not> first this"
  shows "afterEmit this fs =
     (case copySync fs (buildDir this) sd of
        Inl e \<Rightarrow> (Inl e, this, fs)
      | Inr fs2 \<Rightarrow> (Inr (), this, fs2))"
  using assms by (simp add: afterEmit_def Let_def split: sum.splits)

lemma afterEmit_first:
  assumes "staticDir this = Some sd" and "sd \<noteq> []" and "first this"
  shows "afterEmit this fs = afterEmit (this\<lparr>first := False\<rparr>) (removeSync fs sd)"
proof (cases "existsSync fs sd")
  case True
  with assms show ?thesis by (simp add: afterEmit_def Let_def)
next
  case False
  then have "removeSync fs sd = fs" by (simp add: existsSync_def removeSync_absent)
  with assms False show ?thesis by (simp add: afterEmit_def Let_def)
qed

lemma copySync_tree:
  assumes "copySync fs src dest = Inr fs'" and "nodes fs src = Some b" and "wf_node b"
  shows "\<exists>d'. nodes fs' dest = Some d' \<and>
           (\<forall>p c. lookup b p = Some (File c) \<longrightarrow> lookup d' p = Some (File c)) \<and>
           (\<forall>p. lookup b p = None \<longrightarrow> lookup d' p = reach (nodes fs dest) p) \<and>
           (\<forall>q. q \<noteq> dest \<longrightarrow> nodes fs' q = nodes fs q)"
proof -
  from assms(1,2) obtain r where r: "copy_node b (nodes fs dest) = Inr r"
    and fs': "fs' = fs\<lparr>nodes := (nodes fs)(dest \<mapsto> r)\<rparr>"
    by (auto simp: copySync_def split: if_splits sum.splits)
  have "nodes fs' dest = Some r" by (simp add: fs')
  moreover have "\<forall>p c. lookup b p = Some (File c) \<longrightarrow> lookup r p = Some (File c)"
    using copy_node_file[OF r assms(3)] by blast
  moreover have "\<forall>p. lookup b p = None \<longrightarrow> lookup r p = reach (nodes fs dest) p"
    using copy_node_absent[OF r assms(3)] by blast
  moreover have "\<forall>q. q \<noteq> dest \<longrightarrow> nodes fs' q = nodes fs q" by (simp add: fs')
  ultimately show ?thesis by blast
qed















subsection \<open>Paths outside every root\<close>

text \<open>
  C1. The claim: a path that equals no root and does not start with a root followed by the
  separator is classified as ignored. The source tests
  \<^verbatim>\<open>path.indexOf(rootPath + plib.sep) !== -1\<close>, which holds wherever the root occurs in the
  path, not only at its start. With root \<^verbatim>\<open>/src/A\<close>, the existing directory
  \<^verbatim>\<open>/x/src/A/lib\<close> lies outside the root and is classified as not ignored.
\<close>

theorem ignored_outside_root_not_ignored:
  "''/x/src/A/lib'' \<noteq> ''/src/A'' \<and> \<not> prefix (''/src/A'' @ ''/'') ''/x/src/A/lib'' \<and>
   fst (ignored example_config example_fs ''/x/src/A/lib'' init) = Inr False"
  by (simp add: ex_defs)

subsection \<open>Paths inside a root\<close>

text \<open>
  C2, as stated, fails: the claim promises \<open>ignored = false\<close> for a path inside a root
  whose suffix has no segment equal to \<^verbatim>\<open>node_modules\<close>. The file
  \<^verbatim>\<open>/src/A/node_modules_x.js\<close> is inside the root, none of the segments of its suffix is the
  marker, and it is classified as ignored, because the source looks for the marker as a
  substring. And \<^verbatim>\<open>/src/A/gone.js\<close>, inside the root and without the marker, does not
  exist: its classification returns no value, it throws.
\<close>

theorem ignored_marker_counterexample:
  "prefix (''/src/A'' @ ''/'') ''/src/A/node_modules_x.js'' \<and>
   spec_has_marker_segment (drop (length ''/src/A'') ''/src/A/node_modules_x.js'') = False \<and>
   fst (ignored example_config example_fs ''/src/A/node_modules_x.js'' init) = Inr True \<and>
   prefix (''/src/A'' @ ''/'') ''/src/A/gone.js'' \<and>
   spec_has_marker_segment (drop (length ''/src/A'') ''/src/A/gone.js'') = False \<and>
   fst (ignored example_config example_fs ''/src/A/gone.js'' init) = Inl (ENOENT ''/src/A/gone.js'')"
  by (simp add: ex_defs spec_has_marker_segment_def)

text \<open>
  C2, amended. Let the path, not yet in the cache, equal a root or start with that root
  followed by the separator, and let no root registered earlier occur in it. If the rest of
  the path after the root contains the string \<^verbatim>\<open>node_modules\<close> anywhere, the call returns
  \<open>true\<close> and records it. If it does not, and \<^verbatim>\<open>maybeSync\<close> returns normally, the call
  returns \<open>false\<close>.
\<close>

theorem ignored_contained_marker:
  assumes "watched cfg = pre @ (name, rootPath) # post"
    and "\<forall>w \<in> set pre. resolve (plib cfg) p \<noteq> snd w
            \<and> \<not> sublist (snd w @ sep (plib cfg)) (resolve (plib cfg) p)"
    and "resolve (plib cfg) p = rootPath
            \<or> prefix (rootPath @ sep (plib cfg)) (resolve (plib cfg) p)"
    and "ignoreCache st (resolve (plib cfg) p) = None"
  shows "(sublist ''node_modules'' (drop (length rootPath) (resolve (plib cfg) p)) \<longrightarrow>
            ignored cfg fs p st =
              (Inr True, st\<lparr>ignoreCache := (ignoreCache st)(resolve (plib cfg) p \<mapsto> True)\<rparr>)) \<and>
         (\<not> sublist ''node_modules'' (drop (length rootPath) (resolve (plib cfg) p)) \<and>
          fst (maybeSync cfg fs (resolve (plib cfg) p) name
                 (drop (length rootPath) (resolve (plib cfg) p)) st) = Inr () \<longrightarrow>
            fst (ignored cfg fs p st) = Inr False)"
proof -
  let ?path = "resolve (plib cfg) p"
  have m: "?path = rootPath \<or> sublist (rootPath @ sep (plib cfg)) ?path"
    using assms(3) by auto
  note sc = scan_first_match[OF assms(2) m, of fs name post st]
  show ?thesis
    using assms(4) by (auto simp: ignored_def assms(1) sc Let_def split: prod.splits sum.splits)
qed

theorem ignored_contained_marker_witness:
  "prefix (''/src/A'' @ ''/'') ''/src/A/lib/x.js'' \<and>
   fst (ignored example_config example_fs ''/src/A/lib/x.js'' init) = Inr False \<and>
   prefix (''/src/A'' @ ''/'') ''/src/A/node_modules/y.js'' \<and>
   fst (ignored example_config example_fs ''/src/A/node_modules/y.js'' init) = Inr True"
  using ignored_contained_marker[of example_config "[]" "''A''" "''/src/A''" "[]"
          "''/src/A/lib/x.js''" init example_fs]
    ignored_contained_marker[of example_config "[]" "''A''" "''/src/A''" "[]"
          "''/src/A/node_modules/y.js''" init example_fs]
  by (simp add: ex_defs)

subsection \<open>Repeated classification\<close>



subsection \<open>\<^verbatim>\<open>maybeSync\<close> on what is not a regular file\<close>

text \<open>
  C5, as stated, fails for a path that does not exist: \<^verbatim>\<open>fs.statSync\<close> throws, and
  the error leaves \<^verbatim>\<open>maybeSync\<close>.
\<close>

theorem maybeSync_missing_counterexample:
  "nodes example_fs ''/src/A/gone.js'' = None \<and>
   fst (maybeSync example_config example_fs ''/src/A/gone.js'' ''A'' ''/gone.js'' init)
     = Inl (ENOENT ''/src/A/gone.js'')"
  by (simp add: ex_defs)

text \<open>
  C5, amended. For a local path that is not an existing regular file, \<^verbatim>\<open>maybeSync\<close>
  registers no listener and changes nothing; it returns normally when the path exists
  (a directory) and throws the error of \<^verbatim>\<open>fs.statSync\<close> when the path does not exist.
\<close>

theorem maybeSync_not_regular_file:
  assumes "\<forall>c. nodes fs lp \<noteq> Some (File c)"
  shows "maybeSync cfg fs lp name rest st =
           (if nodes fs lp = None then Inl (ENOENT lp) else Inr (), st)"
  using assms by (auto simp: maybeSync_def statSync_def split: option.splits node.splits)

theorem maybeSync_not_regular_file_witness:
  "maybeSync example_config example_fs ''/src/A/lib'' ''A'' ''/lib'' init = (Inr (), init)"
  using maybeSync_not_regular_file[of example_fs "''/src/A/lib''" example_config "''A''" "''/lib''" init]
  by (simp add: example_fs_def)

subsection \<open>A local file that already is its source\<close>

text \<open>
  C8. When the local path is a regular file and \<^verbatim>\<open>fs.realpathSync\<close> gives the same
  canonical path for it and for its source path, \<^verbatim>\<open>maybeSync\<close> returns without
  registering a listener.
\<close>

theorem maybeSync_same_realpath:
  assumes "nodes fs lp = Some (File c)"
    and "map_of (watchedPackages cfg) name = Some dir"
    and "realpath fs (join (plib cfg) dir rest) = Some s"
    and "realpath fs lp = Some s"
  shows "maybeSync cfg fs lp name rest st = (Inr (), st)"
  using assms by (simp add: maybeSync_def statSync_def realpathSync_def)

text \<open>
  \<^verbatim>\<open>/src/A/link.js\<close> is a symbolic link to \<^verbatim>\<open>/linked/A/link.js\<close>: after its
  classification no listener is registered.
\<close>

theorem maybeSync_same_realpath_witness:
  "maybeSync example_config example_fs ''/src/A/link.js'' ''A'' ''/link.js'' init = (Inr (), init) \<and>
   listeners (snd (ignored example_config example_fs ''/src/A/link.js'' init)) = []"
proof -
  have "maybeSync example_config example_fs ''/src/A/link.js'' ''A'' ''/link.js'' init = (Inr (), init)"
    by (rule maybeSync_same_realpath[where c = "''same''" and dir = "''/linked/A''"
          and s = "''/linked/A/link.js''"])
       (simp_all add: example_fs_def example_config_def example_plib_def)
  then show ?thesis by (simp add: ex_defs)
qed

subsection \<open>An exception during classification\<close>

text \<open>
  C10. Let classification of a path that is not in the cache reach \<^verbatim>\<open>maybeSync\<close>
  (the first root that matches it has no \<^verbatim>\<open>node_modules\<close> in the rest of the path), and
  let \<^verbatim>\<open>maybeSync\<close> throw. Then \<^verbatim>\<open>ignored\<close> throws the same error and the state is
  the one before the call: the cache has no entry for the path, and a later call classifies
  it anew. For a path that does not exist the error is that of \<^verbatim>\<open>fs.statSync\<close>.
\<close>

theorem ignored_throw_keeps_cache:
  assumes "watched cfg = pre @ (name, rootPath) # post"
    and "\<forall>w \<in> set pre. resolve (plib cfg) p \<noteq> snd w
            \<and> \<not> sublist (snd w @ sep (plib cfg)) (resolve (plib cfg) p)"
    and "resolve (plib cfg) p = rootPath
            \<or> sublist (rootPath @ sep (plib cfg)) (resolve (plib cfg) p)"
    and "\<not> sublist ''node_modules'' (drop (length rootPath) (resolve (plib cfg) p))"
    and "ignoreCache st (resolve (plib cfg) p) = None"
    and "fst (maybeSync cfg fs (resolve (plib cfg) p) name
                 (drop (length rootPath) (resolve (plib cfg) p)) st) = Inl e"
  shows "ignored cfg fs p st = (Inl e, st) \<and>
         (nodes fs (resolve (plib cfg) p) = None \<longrightarrow> e = ENOENT (resolve (plib cfg) p)) \<and>
         ignored cfg fs' p (snd (ignored cfg fs p st)) = ignored cfg fs' p st"
proof -
  let ?path = "resolve (plib cfg) p"
  obtain st2 where ms: "maybeSync cfg fs ?path name (drop (length rootPath) ?path) st = (Inl e, st2)"
    using assms(6) by (cases "maybeSync cfg fs ?path name (drop (length rootPath) ?path) st") auto
  from maybeSync_throw_state[OF ms] have st2: "st2 = st" .
  note sc = scan_first_match[OF assms(2) assms(3), of fs name post st]
  have "ignored cfg fs p st = (Inl e, st)"
    using assms(4,5) ms st2 by (simp add: ignored_def assms(1) sc)
  moreover have "nodes fs ?path = None \<longrightarrow> e = ENOENT ?path"
    using ms by (auto simp: maybeSync_def statSync_def)
  ultimately show ?thesis by simp
qed

text \<open>\<^verbatim>\<open>/src/A/gone.js\<close> does not exist: the call throws and leaves the initial state.\<close>

theorem ignored_throw_keeps_cache_witness:
  "ignored example_config example_fs ''/src/A/gone.js'' init = (Inl (ENOENT ''/src/A/gone.js''), init) \<and>
   ignoreCache init ''/src/A/gone.js'' = None"
  using ignored_throw_keeps_cache[of example_config "[]" "''A''" "''/src/A''" "[]"
          "''/src/A/gone.js''" init example_fs "ENOENT ''/src/A/gone.js''"]
  by (simp add: ex_defs)

subsection \<open>One firing of a listener\<close>



subsection \<open>Publishing the build output\<close>

text \<open>
  C6. Without a destination (\<^verbatim>\<open>staticDir\<close> undefined or empty) an emission changes
  nothing. With a destination, \<^verbatim>\<open>_first\<close> is false after every emission; the first emission
  is an emission that is not the first, made on the disk from which the destination has
  been removed; and an emission that is not the first and succeeds leaves at the destination
  every file of the build output with its content, and leaves every path that the build
  output does not have as the destination had it.
\<close>

theorem afterEmit_publishes:
  "(staticDir this = None \<or> staticDir this = Some [] \<longrightarrow> afterEmit this fs = (Inr (), this, fs)) \<and>
   (staticDir this = Some sd \<and> sd \<noteq> [] \<longrightarrow>
      first (fst (snd (afterEmit this fs))) = False \<and>
      (first this \<longrightarrow>
         afterEmit this fs = afterEmit (this\<lparr>first := False\<rparr>) (removeSync fs sd)) \<and>
      (\<not> first this \<and> fst (afterEmit this fs) = Inr () \<and>
       nodes fs (buildDir this) = Some b \<and> wf_node b \<longrightarrow>
         (\<exists>d'. nodes (snd (snd (afterEmit this fs))) sd = Some d' \<and>
            (\<forall>p c. lookup b p = Some (File c) \<longrightarrow> lookup d' p = Some (File c)) \<and>
            (\<forall>p. lookup b p = None \<longrightarrow> lookup d' p = reach (nodes fs sd) p))))"
proof -
  have a: "staticDir this = None \<or> staticDir this = Some [] \<longrightarrow> afterEmit this fs = (Inr (), this, fs)"
    by (auto simp: afterEmit_def)
  have b: "staticDir this = Some sd \<and> sd \<noteq> [] \<longrightarrow> first (fst (snd (afterEmit this fs))) = False"
    by (auto simp: afterEmit_def Let_def split: sum.splits)
  have c: "staticDir this = Some sd \<and> sd \<noteq> [] \<longrightarrow> first this \<longrightarrow>
         afterEmit this fs = afterEmit (this\<lparr>first := False\<rparr>) (removeSync fs sd)"
    using afterEmit_first by blast
  have d: "staticDir this = Some sd \<and> sd \<noteq> [] \<longrightarrow>
       \<not> first this \<and> fst (afterEmit this fs) = Inr () \<and>
       nodes fs (buildDir this) = Some b \<and> wf_node b \<longrightarrow>
         (\<exists>d'. nodes (snd (snd (afterEmit this fs))) sd = Some d' \<and>
            (\<forall>p c. lookup b p = Some (File c) \<longrightarrow> lookup d' p = Some (File c)) \<and>
            (\<forall>p. lookup b p = None \<longrightarrow> lookup d' p = reach (nodes fs sd) p))"
  proof (intro impI, elim conjE)
    assume h: "staticDir this = Some sd" "sd \<noteq> []" "\<not> first this"
      "fst (afterEmit this fs) = Inr ()" "nodes fs (buildDir this) = Some b" "wf_node b"
    note ae = afterEmit_later[OF h(1,2,3), of fs]
    from h(4) ae obtain fs2 where c2: "copySync fs (buildDir this) sd = Inr fs2"
      and r: "afterEmit this fs = (Inr (), this, fs2)"
      by (auto split: sum.splits)
    from copySync_tree[OF c2 h(5,6)] show
      "\<exists>d'. nodes (snd (snd (afterEmit this fs))) sd = Some d' \<and>
            (\<forall>p c. lookup b p = Some (File c) \<longrightarrow> lookup d' p = Some (File c)) \<and>
            (\<forall>p. lookup b p = None \<longrightarrow> lookup d' p = reach (nodes fs sd) p)"
      unfolding r by auto
  qed
  from a b c d show ?thesis by blast
qed

text \<open>
  The first emission replaces \<^verbatim>\<open>old.txt\<close> by \<^verbatim>\<open>a.js\<close>; the second keeps
  \<^verbatim>\<open>b.txt\<close>.
\<close>

theorem afterEmit_publishes_witness:
  "afterEmit (new_FrontEndPlugin ''/build'' None) example_publish_fs
     = (Inr (), new_FrontEndPlugin ''/build'' None, example_publish_fs) \<and>
   nodes (snd (snd (afterEmit (new_FrontEndPlugin ''/build'' (Some ''/static''))
       example_publish_fs))) ''/static''
     = Some (Dir [(''a.js'', File ''bundle'')]) \<and>
   fst (afterEmit ((new_FrontEndPlugin ''/build'' (Some ''/static''))\<lparr>first := False\<rparr>)
       example_publish_fs2) = Inr () \<and>
   wf_node (Dir [(''a.js'', File ''bundle'')]) \<and>
   nodes (snd (snd (afterEmit ((new_FrontEndPlugin ''/build'' (Some ''/static''))\<lparr>first := False\<rparr>)
       example_publish_fs2))) ''/static''
     = Some (Dir [(''a.js'', File ''bundle''), (''b.txt'', File ''extra'')])"
  using afterEmit_publishes[of "new_FrontEndPlugin ''/build'' None" example_publish_fs]
    afterEmit_publishes[of "new_FrontEndPlugin ''/build'' (Some ''/static'')" example_publish_fs
      "''/static''"]
    afterEmit_publishes[of "(new_FrontEndPlugin ''/build'' (Some ''/static''))\<lparr>first := False\<rparr>"
      example_publish_fs2 "''/static''" "Dir [(''a.js'', File ''bundle'')]"]
  by (simp add: new_FrontEndPlugin_def example_publish_fs_def example_publish_fs2_def
      afterEmit_def existsSync_def removeSync_def copySync_def Let_def)

subsection \<open>Timestamps of ignored paths\<close>



subsection \<open>An error from the wrapped file system\<close>

text \<open>
  C7, as stated, fails: the claim has the error and all accompanying arguments handed on.
  The source calls \<^verbatim>\<open>callback(err)\<close>: the consumer gets the error alone.
\<close>

theorem on_change_error_counterexample:
  "truthy (err (example_args\<lparr>err := JRef 9\<rparr>)) \<and>
   fst (on_change example_partition (example_args\<lparr>err := JRef 9\<rparr>) example_heap) = Inr [JRef 9] \<and>
   fst (on_change example_partition (example_args\<lparr>err := JRef 9\<rparr>) example_heap) \<noteq>
     Inr [JRef 9, JRef 1, JRef 2, JRef 3, JRef 4, JRef 5, JRef 6]"
  by (simp add: on_change_def example_args_def)

text \<open>
  C7, amended. When the completion callback arrives with a truthy error, the consumer's
  callback is called at once with the error as its only argument, and no timestamp map is
  written.
\<close>

theorem on_change_error:
  "truthy (err args) \<Longrightarrow> on_change part args h = (Inr [err args], h)"
  by (simp add: on_change_def)

theorem on_change_error_witness:
  "truthy (JRef 9) \<and>
   on_change example_partition (example_args\<lparr>err := JRef 9\<rparr>) example_heap
     = (Inr [JRef 9], example_heap)"
  using on_change_error[of "example_args\<lparr>err := JRef 9\<rparr>" example_partition example_heap]
  by (simp add: example_args_def)

end
